theory Spec2Isabelle
  imports Complex_Main "HOL-Library.Multiset"
begin

section \<open>Circuits and exceptions\<close>

text \<open>
  A circuit (\<open>QuantumCircuit\<close>) is the list of the instructions appended to it, in
  order. The builders of \<open>egs_core.py\<close> never compute with an angle, so the type of
  angles is a parameter \<open>'a\<close>. \<open>Barrier\<close> is \<open>qc.barrier()\<close> without arguments (on all
  qubits); it is an ordering directive, not a gate. \<open>Measure q c\<close> measures qubit \<open>q\<close>
  into bit \<open>c\<close> of the classical register that \<open>measure_all\<close> adds.
\<close>

datatype 'a instruction =
    H nat
  | CX nat nat
  | RZ 'a nat
  | RX 'a nat
  | Barrier
  | Measure nat nat

text \<open>
  Exceptions by class name. \<open>IndexError\<close> and \<open>ValueError\<close> are raised by Python and
  NumPy in the code modelled here, \<open>LibraryError\<close> stands for an exception that the
  compiler or the simulator raises (the text is its class name). The last three are
  names of the specification; no definition below constructs them.
\<close>

datatype error =
    IndexError
  | ValueError
  | LibraryError string
  | InsufficientParametersError
  | CompilationError
  | ExecutionError

text \<open>
  \<open>params[idx]\<close> on a list or a NumPy array. The index of the builders starts at 0
  and is only incremented, so it is a \<open>nat\<close>; reading at or beyond the length raises
  \<open>IndexError\<close>.
\<close>

definition getitem :: "'a list \<Rightarrow> nat \<Rightarrow> error + 'a" where
  "getitem xs i = (if i < length xs then Inr (xs ! i) else Inl IndexError)"

text \<open>
  A \<open>for\<close> loop whose body may raise: the body runs on each element in turn, and the
  first exception ends the loop and is the result.
\<close>

fun for_each :: "'i list \<Rightarrow> ('i \<Rightarrow> 's \<Rightarrow> error + 's) \<Rightarrow> 's \<Rightarrow> error + 's" where
  "for_each [] body s = Inr s"
| "for_each (i # is) body s =
     (case body i s of Inl e \<Rightarrow> Inl e | Inr s' \<Rightarrow> for_each is body s')"

text \<open>
  The local state of a builder: the circuit \<open>qc\<close> built so far and the parameter
  counter \<open>idx\<close>.
\<close>

record 'a builder =
  qc :: "'a instruction list"
  idx :: nat

text \<open>
  \<open>for i in range(n_qubits): qc.h(i)\<close>. The qubit and layer counts are naturals:
  \<open>QuantumCircuit(n_qubits, n_qubits)\<close> takes sizes, and \<open>range(n_qubits - 1)\<close> is
  empty for \<open>n_qubits = 0\<close> as \<open>[0..<0 - 1]\<close> is.
\<close>

definition h_all :: "nat \<Rightarrow> 'a instruction list \<Rightarrow> 'a instruction list" where
  "h_all n_qubits c = foldl (\<lambda>c i. c @ [H i]) c [0..<n_qubits]"

text \<open>
  \<open>qc.measure_all()\<close> of Qiskit with its default arguments: a barrier on all qubits,
  then the measurement of every qubit \<open>q\<close> into bit \<open>q\<close> of a new register.
\<close>

definition measure_all :: "nat \<Rightarrow> 'a instruction list \<Rightarrow> 'a instruction list" where
  "measure_all n_qubits c = c @ [Barrier] @ map (\<lambda>q. Measure q q) [0..<n_qubits]"

section \<open>The Standard builder\<close>

text \<open>
  Body of the loop over adjacent pairs (lines 62-66):
  \<open>qc.cx(i, i+1); qc.rz(params[idx], i+1); qc.cx(i, i+1); idx += 1\<close>.
\<close>

definition std_pair :: "'a list \<Rightarrow> nat \<Rightarrow> 'a builder \<Rightarrow> error + 'a builder" where
  "std_pair params i s =
     (let c1 = qc s @ [CX i (i + 1)] in
      case getitem params (idx s) of
        Inl e \<Rightarrow> Inl e
      | Inr theta \<Rightarrow>
          Inr \<lparr>qc = c1 @ [RZ theta (i + 1)] @ [CX i (i + 1)], idx = idx s + 1\<rparr>)"

text \<open>Body of the mixing loop (lines 67-69 and 93-95): \<open>qc.rx(params[idx], i); idx += 1\<close>.\<close>

definition rx_step :: "'a list \<Rightarrow> nat \<Rightarrow> 'a builder \<Rightarrow> error + 'a builder" where
  "rx_step params i s =
     (case getitem params (idx s) of
        Inl e \<Rightarrow> Inl e
      | Inr theta \<Rightarrow> Inr \<lparr>qc = qc s @ [RX theta i], idx = idx s + 1\<rparr>)"

text \<open>One iteration of \<open>for _ in range(layers)\<close> of the Standard builder (lines 61-69).\<close>

definition std_layer :: "nat \<Rightarrow> 'a list \<Rightarrow> nat \<Rightarrow> 'a builder \<Rightarrow> error + 'a builder" where
  "std_layer n_qubits params l s =
     (case for_each [0..<n_qubits - 1] (std_pair params) s of
        Inl e \<Rightarrow> Inl e
      | Inr s1 \<Rightarrow> for_each [0..<n_qubits] (rx_step params) s1)"

definition build_genomic_ansatz_standard ::
    "nat \<Rightarrow> nat \<Rightarrow> 'a list \<Rightarrow> error + 'a instruction list" where
  "build_genomic_ansatz_standard n_qubits layers params =
     (let c0 = h_all n_qubits [] in
      case for_each [0..<layers] (std_layer n_qubits params) \<lparr>qc = c0, idx = 0\<rparr> of
        Inl e \<Rightarrow> Inl e
      | Inr s \<Rightarrow> Inr (measure_all n_qubits (qc s)))"

section \<open>The EGS builder\<close>

text \<open>
  Body of the collecting loop (lines 85-87):
  \<open>rz_ops.append((i+1, params[idx])); idx += 1\<close>. Its state is the list \<open>rz_ops\<close>
  and the counter.
\<close>

definition egs_collect ::
    "'a list \<Rightarrow> nat \<Rightarrow> (nat \<times> 'a) list \<times> nat \<Rightarrow> error + (nat \<times> 'a) list \<times> nat" where
  "egs_collect params i st =
     (case st of (rz_ops, j) \<Rightarrow>
        (case getitem params j of
           Inl e \<Rightarrow> Inl e
         | Inr theta \<Rightarrow> Inr (rz_ops @ [(i + 1, theta)], j + 1)))"

text \<open>\<open>for q, theta in rz_ops: qc.rz(theta, q)\<close> (lines 88-89).\<close>

definition emit_rz :: "(nat \<times> 'a) list \<Rightarrow> 'a instruction list \<Rightarrow> 'a instruction list" where
  "emit_rz rz_ops c = foldl (\<lambda>c (q, theta). c @ [RZ theta q]) c rz_ops"

text \<open>One iteration of the first \<open>for _ in range(layers)\<close> of the EGS builder (lines 83-96).\<close>

definition egs_layer :: "nat \<Rightarrow> 'a list \<Rightarrow> nat \<Rightarrow> 'a builder \<Rightarrow> error + 'a builder" where
  "egs_layer n_qubits params l s =
     (case for_each [0..<n_qubits - 1] (egs_collect params) ([], idx s) of
        Inl e \<Rightarrow> Inl e
      | Inr (rz_ops, j) \<Rightarrow>
          (let c1 = emit_rz rz_ops (qc s) @ [Barrier] in
           case for_each [0..<n_qubits] (rx_step params) \<lparr>qc = c1, idx = j\<rparr> of
             Inl e \<Rightarrow> Inl e
           | Inr s2 \<Rightarrow> Inr (s2\<lparr>qc := qc s2 @ [Barrier]\<rparr>)))"

text \<open>The deferred entanglement (lines 99-101): two nested loops of \<open>qc.cx(i, i+1)\<close>.\<close>

definition cx_chain :: "nat \<Rightarrow> 'a instruction list \<Rightarrow> 'a instruction list" where
  "cx_chain n_qubits c = foldl (\<lambda>c i. c @ [CX i (i + 1)]) c [0..<n_qubits - 1]"

definition cx_deferred :: "nat \<Rightarrow> nat \<Rightarrow> 'a instruction list \<Rightarrow> 'a instruction list" where
  "cx_deferred n_qubits layers c = foldl (\<lambda>c l. cx_chain n_qubits c) c [0..<layers]"

definition build_genomic_ansatz_egs ::
    "nat \<Rightarrow> nat \<Rightarrow> 'a list \<Rightarrow> error + 'a instruction list" where
  "build_genomic_ansatz_egs n_qubits layers params =
     (let c0 = h_all n_qubits [] @ [Barrier] in
      case for_each [0..<layers] (egs_layer n_qubits params) \<lparr>qc = c0, idx = 0\<rparr> of
        Inl e \<Rightarrow> Inl e
      | Inr s \<Rightarrow> Inr (measure_all n_qubits (cx_deferred n_qubits layers (qc s))))"

text \<open>The parameter count of line 114, on Python's integers.\<close>

definition n_params :: "int \<Rightarrow> int \<Rightarrow> int" where
  "n_params n_qubits n_layers = n_layers * (n_qubits + (n_qubits - 1))"


section \<open>The noise model\<close>

text \<open>
  An error channel of \<open>qiskit_aer.noise\<close>, kept symbolic: the result of
  \<open>thermal_relaxation_error(t1, t2, time)\<close>, of \<open>depolarizing_error(p, n)\<close>, of
  \<open>a.tensor(b)\<close> and of \<open>a.compose(b)\<close>. The constants of the source are decimal
  literals and are written here as the rationals they denote.
\<close>

datatype quantum_error =
    ThermalRelaxation rat rat rat
  | Depolarizing rat nat
  | Tensor quantum_error quantum_error
  | Compose quantum_error quantum_error

text \<open>
  The two tables of a \<open>NoiseModel\<close>: the errors that apply to an instruction on all
  qubits, by instruction name in insertion order, and the errors bound to specific
  qubits.
\<close>

record noise_model =
  default_quantum_errors :: "(string \<times> quantum_error) list"
  local_quantum_errors :: "((string \<times> nat list) \<times> quantum_error) list"

definition NoiseModel :: noise_model where
  "NoiseModel = \<lparr>default_quantum_errors = [], local_quantum_errors = []\<rparr>"

text \<open>
  Registration of an all-qubit error for one instruction name: a name that already has
  an error gets the composition of the old one with the new one.
\<close>

fun add_default ::
    "quantum_error \<Rightarrow> string \<Rightarrow> (string \<times> quantum_error) list \<Rightarrow> (string \<times> quantum_error) list" where
  "add_default err name [] = [(name, err)]"
| "add_default err name ((k, v) # rest) =
     (if k = name then (k, Compose v err) # rest else (k, v) # add_default err name rest)"

definition add_all_qubit_quantum_error ::
    "quantum_error \<Rightarrow> string list \<Rightarrow> noise_model \<Rightarrow> noise_model" where
  "add_all_qubit_quantum_error err instructions nm =
     nm\<lparr>default_quantum_errors :=
          foldl (\<lambda>d name. add_default err name d) (default_quantum_errors nm) instructions\<rparr>"

definition create_thermal_noise :: noise_model where
  "create_thermal_noise =
     (let noise_model = NoiseModel;
          t1 = 120 / 10 ^ 6;
          t2 = 80 / 10 ^ 6;
          time_1q = 60 / 10 ^ 9;
          time_2q = 300 / 10 ^ 9;
          error_1q_thermal = ThermalRelaxation t1 t2 time_1q;
          error_2q_thermal =
            Tensor (ThermalRelaxation t1 t2 time_2q) (ThermalRelaxation t1 t2 time_2q);
          error_1q_op = Depolarizing (1 / 1000) 1;
          error_2q_op = Depolarizing (1 / 100) 2;
          noise_model = add_all_qubit_quantum_error (Compose error_1q_thermal error_1q_op)
            [''h'', ''x'', ''z'', ''ry'', ''rz'', ''rx'', ''s'', ''t''] noise_model;
          noise_model = add_all_qubit_quantum_error (Compose error_2q_thermal error_2q_op)
            [''cx'', ''cz''] noise_model
      in noise_model)"

text \<open>
  The number of qubits an error acts on, and the elementary errors of a channel in the
  order in which they are applied: \<open>a.compose(b)\<close> applies \<open>a\<close> first and \<open>b\<close> after it.
\<close>

fun num_qubits :: "quantum_error \<Rightarrow> nat" where
  "num_qubits (ThermalRelaxation t1 t2 t) = 1"
| "num_qubits (Depolarizing p n) = n"
| "num_qubits (Tensor a b) = num_qubits a + num_qubits b"
| "num_qubits (Compose a b) = num_qubits a"

fun application_order :: "quantum_error \<Rightarrow> quantum_error list" where
  "application_order (Compose a b) = application_order a @ application_order b"
| "application_order e = [e]"

section \<open>The benchmark\<close>

text \<open>
  What \<open>run_egs_benchmark\<close> uses of NumPy and Qiskit, as parameters. \<open>'g\<close> is the state
  of NumPy's global generator and \<open>'c\<close> a compiled circuit.
  \<^item> \<open>np_seed n\<close> is the state that \<open>np.random.seed(n)\<close> installs;
  \<^item> \<open>np_uniform g low high size\<close> is \<open>np.random.uniform(low, high, size)\<close> run in state
    \<open>g\<close>: the sample or an exception, and the state it leaves;
  \<^item> \<open>transpile c\<close> is \<open>transpile(c, backend, optimization_level=3)\<close>;
  \<^item> \<open>run_get_counts c shots\<close> is \<open>backend.run(c, shots=shots).result().get_counts()\<close>,
    a dictionary from outcome to count, as a list of its items;
  \<^item> \<open>depth c\<close> is \<open>c.depth()\<close>.
  The compiler and the simulator do not read or write NumPy's global generator here.
\<close>

record ('g, 'c) collaborators =
  np_seed :: "nat \<Rightarrow> 'g"
  np_uniform :: "'g \<Rightarrow> real \<Rightarrow> real \<Rightarrow> int \<Rightarrow> (error + real list) \<times> 'g"
  transpile :: "real instruction list \<Rightarrow> error + 'c"
  run_get_counts :: "'c \<Rightarrow> nat \<Rightarrow> error + (string \<times> nat) list"
  depth :: "'c \<Rightarrow> int"

record report =
  fid_std :: real
  fid_egs :: real
  depth_std :: int
  depth_egs :: int

definition SHOTS :: nat where
  "SHOTS = 8192"

text \<open>\<open>max(counts.values())\<close>; \<open>max\<close> of an empty sequence raises \<open>ValueError\<close>.\<close>

definition max_count :: "(string \<times> nat) list \<Rightarrow> error + nat" where
  "max_count counts =
     (case counts of [] \<Rightarrow> Inl ValueError | (k, v) # rest \<Rightarrow> Inr (fold max (map snd rest) v))"

text \<open>
  Lines 114-116: the count, the seeding of the global generator, the sample. The state
  \<open>g\<close> of the generator before the call is overwritten by the seeding.
\<close>

definition draw_params ::
    "('g, 'c) collaborators \<Rightarrow> nat \<Rightarrow> nat \<Rightarrow> 'g \<Rightarrow> (error + real list) \<times> 'g" where
  "draw_params env n_qubits n_layers g =
     (let n = n_params (int n_qubits) (int n_layers);
          g1 = np_seed env 42
      in np_uniform env g1 (- pi) pi n)"

text \<open>Lines 114-120: the sample and the two circuits built from it.\<close>

definition build_circuits ::
    "('g, 'c) collaborators \<Rightarrow> nat \<Rightarrow> nat \<Rightarrow> 'g
       \<Rightarrow> (error + real instruction list \<times> real instruction list) \<times> 'g" where
  "build_circuits env n_qubits n_layers g =
     (case draw_params env n_qubits n_layers g of
        (Inl e, g2) \<Rightarrow> (Inl e, g2)
      | (Inr params, g2) \<Rightarrow>
          (case build_genomic_ansatz_standard n_qubits n_layers params of
             Inl e \<Rightarrow> (Inl e, g2)
           | Inr qc_std \<Rightarrow>
               (case build_genomic_ansatz_egs n_qubits n_layers params of
                  Inl e \<Rightarrow> (Inl e, g2)
                | Inr qc_egs \<Rightarrow> (Inr (qc_std, qc_egs), g2))))"

text \<open>
  Lines 124-142: both compilations, then both executions, then the metrics. There is no
  \<open>try\<close> in the source: the first exception is the outcome.
\<close>

definition compile_and_measure ::
    "('g, 'c) collaborators \<Rightarrow> real instruction list \<Rightarrow> real instruction list \<Rightarrow> error + report" where
  "compile_and_measure env qc_std qc_egs =
     (case transpile env qc_std of Inl e \<Rightarrow> Inl e | Inr qc_std_opt \<Rightarrow>
      case transpile env qc_egs of Inl e \<Rightarrow> Inl e | Inr qc_egs_opt \<Rightarrow>
      case run_get_counts env qc_std_opt SHOTS of Inl e \<Rightarrow> Inl e | Inr counts_std \<Rightarrow>
      case run_get_counts env qc_egs_opt SHOTS of Inl e \<Rightarrow> Inl e | Inr counts_egs \<Rightarrow>
      case max_count counts_std of Inl e \<Rightarrow> Inl e | Inr m_std \<Rightarrow>
      case max_count counts_egs of Inl e \<Rightarrow> Inl e | Inr m_egs \<Rightarrow>
        Inr \<lparr>fid_std = real m_std / real SHOTS,
             fid_egs = real m_egs / real SHOTS,
             depth_std = depth env qc_std_opt,
             depth_egs = depth env qc_egs_opt\<rparr>)"

text \<open>The result of the call, or its exception, and the generator state it leaves.\<close>

definition run_egs_benchmark ::
    "('g, 'c) collaborators \<Rightarrow> nat \<Rightarrow> nat \<Rightarrow> 'g \<Rightarrow> (error + report) \<times> 'g" where
  "run_egs_benchmark env n_qubits n_layers g =
     (case build_circuits env n_qubits n_layers g of
        (Inl e, g2) \<Rightarrow> (Inl e, g2)
      | (Inr (qc_std, qc_egs), g2) \<Rightarrow> (compile_and_measure env qc_std qc_egs, g2))"

text \<open>
  What NumPy documents of \<open>uniform\<close>, for a size that is not negative and an interval that
  is not empty: the sample has \<open>size\<close> entries, each in \<open>[low, high)\<close>.
\<close>

definition numpy_uniform_contract :: "('g, 'c) collaborators \<Rightarrow> bool" where
  "numpy_uniform_contract env =
     (\<forall>g low high size. 0 \<le> size \<and> low < high \<longrightarrow>
        (\<exists>v. fst (np_uniform env g low high size) = Inr v
           \<and> int (length v) = size \<and> (\<forall>x \<in> set v. low \<le> x \<and> x < high)))"

text \<open>
  A stand-in for the collaborators, to run the benchmark on concrete inputs. Its generator
  state is the seed and the number of samples drawn since the seeding; its sample is
  \<open>size\<close> copies of \<open>low\<close>, and a negative \<open>size\<close> raises \<open>ValueError\<close> as in NumPy. The
  compiler and the simulator fail on a circuit with the exception that \<open>compile_failure\<close>
  and \<open>run_failure\<close> give for it, if any; a compiled circuit is the circuit itself, its
  depth the number of its instructions, and all shots give one outcome.
\<close>

definition stand_in ::
    "(real instruction list \<Rightarrow> error option) \<Rightarrow> (real instruction list \<Rightarrow> error option)
       \<Rightarrow> (nat \<times> nat, real instruction list) collaborators" where
  "stand_in compile_failure run_failure =
     \<lparr>np_seed = (\<lambda>n. (n, 0)),
      np_uniform = (\<lambda>g low high size.
         (if size < 0 then Inl ValueError else Inr (replicate (nat size) low),
          (fst g, snd g + 1))),
      transpile = (\<lambda>c. case compile_failure c of Some e \<Rightarrow> Inl e | None \<Rightarrow> Inr c),
      run_get_counts = (\<lambda>c shots.
         case run_failure c of Some e \<Rightarrow> Inl e | None \<Rightarrow> Inr [(''0'', shots)]),
      depth = (\<lambda>c. int (length c))\<rparr>"

text \<open>Failure modes for the stand-in: never, on every circuit, on the circuits longer than \<open>k\<close>.\<close>

definition never :: "real instruction list \<Rightarrow> error option" where
  "never c = None"

definition always :: "error \<Rightarrow> real instruction list \<Rightarrow> error option" where
  "always e c = Some e"

definition longer_than :: "nat \<Rightarrow> error \<Rightarrow> real instruction list \<Rightarrow> error option" where
  "longer_than k e c = (if k < length c then Some e else None)"

section \<open>Reading a circuit\<close>

text \<open>
  The gates of a circuit are its instructions other than barriers; the rotations are
  the \<open>rz\<close> and \<open>rx\<close> gates, the entangling gates the \<open>cx\<close> gates.
\<close>

definition is_rotation :: "'a instruction \<Rightarrow> bool" where
  "is_rotation x = (case x of RZ theta q \<Rightarrow> True | RX theta q \<Rightarrow> True | _ \<Rightarrow> False)"

definition is_entangling :: "'a instruction \<Rightarrow> bool" where
  "is_entangling x = (case x of CX c t \<Rightarrow> True | _ \<Rightarrow> False)"

definition gates :: "'a instruction list \<Rightarrow> 'a instruction list" where
  "gates c = filter (\<lambda>x. x \<noteq> Barrier) c"

definition rotations :: "'a instruction list \<Rightarrow> 'a instruction list" where
  "rotations c = filter is_rotation c"

definition entangling :: "'a instruction list \<Rightarrow> 'a instruction list" where
  "entangling c = filter is_entangling c"

definition other_gates :: "'a instruction list \<Rightarrow> 'a instruction list" where
  "other_gates c = filter (\<lambda>x. \<not> is_entangling x) (gates c)"

text \<open>
  The stages that the theorems below find in the circuits. A layer reads its parameters
  from position \<open>b\<close>: \<open>n_qubits - 1\<close> angles for the pairs, then \<open>n_qubits\<close> angles for the
  mixing rotations, \<open>width n_qubits\<close> in all.
\<close>

definition width :: "nat \<Rightarrow> nat" where
  "width n_qubits = (n_qubits - 1) + n_qubits"

definition std_pairs :: "'a list \<Rightarrow> nat \<Rightarrow> nat \<Rightarrow> 'a instruction list" where
  "std_pairs params n_qubits b =
     concat (map (\<lambda>i. [CX i (i + 1), RZ (params ! (b + i)) (i + 1), CX i (i + 1)])
               [0..<n_qubits - 1])"

definition rz_batch :: "'a list \<Rightarrow> nat \<Rightarrow> nat \<Rightarrow> 'a instruction list" where
  "rz_batch params n_qubits b = map (\<lambda>i. RZ (params ! (b + i)) (i + 1)) [0..<n_qubits - 1]"

definition rx_batch :: "'a list \<Rightarrow> nat \<Rightarrow> nat \<Rightarrow> 'a instruction list" where
  "rx_batch params n_qubits b =
     map (\<lambda>i. RX (params ! (b + (n_qubits - 1) + i)) i) [0..<n_qubits]"

definition cx_batch :: "nat \<Rightarrow> 'a instruction list" where
  "cx_batch n_qubits = map (\<lambda>i. CX i (i + 1)) [0..<n_qubits - 1]"

definition std_layers :: "'a list \<Rightarrow> nat \<Rightarrow> nat \<Rightarrow> 'a instruction list" where
  "std_layers params n_qubits layers =
     concat (map (\<lambda>l. std_pairs params n_qubits (l * width n_qubits)
                      @ rx_batch params n_qubits (l * width n_qubits)) [0..<layers])"

definition egs_layers :: "'a list \<Rightarrow> nat \<Rightarrow> nat \<Rightarrow> 'a instruction list" where
  "egs_layers params n_qubits layers =
     concat (map (\<lambda>l. rz_batch params n_qubits (l * width n_qubits) @ [Barrier]
                      @ rx_batch params n_qubits (l * width n_qubits) @ [Barrier]) [0..<layers])"

definition measurements :: "nat \<Rightarrow> 'a instruction list" where
  "measurements n_qubits = map (\<lambda>q. Measure q q) [0..<n_qubits]"

text \<open>
  The rotation bound to parameter \<open>N\<close>: its place \<open>r\<close> in its layer decides the kind and
  the target.
\<close>

definition rotation_of :: "nat \<Rightarrow> 'a list \<Rightarrow> nat \<Rightarrow> 'a instruction" where
  "rotation_of n_qubits params N =
     (let r = N mod width n_qubits in
      if r < n_qubits - 1 then RZ (params ! N) (r + 1)
      else RX (params ! N) (r - (n_qubits - 1)))"

section \<open>The loops in closed form\<close>

lemma for_each_append:
  "for_each (xs @ ys) body s =
     (case for_each xs body s of Inl e \<Rightarrow> Inl e | Inr s' \<Rightarrow> for_each ys body s')"
  by (induction xs arbitrary: s) (auto split: sum.splits)

lemma for_each_snoc:
  "for_each [0..<Suc m] body s =
     (case for_each [0..<m] body s of Inl e \<Rightarrow> Inl e | Inr s' \<Rightarrow> body m s')"
  by (simp add: for_each_append split: sum.splits)

lemma foldl_snoc_map: "foldl (\<lambda>c i. c @ [f i]) c xs = c @ map f xs"
  by (induction xs arbitrary: c) auto

lemma h_all_eq: "h_all n c = c @ map H [0..<n]"
  by (simp add: h_all_def foldl_snoc_map)

lemma cx_chain_eq: "cx_chain n c = c @ cx_batch n"
  by (simp add: cx_chain_def cx_batch_def foldl_snoc_map)

lemma foldl_const_append: "foldl (\<lambda>c l. c @ ys) c xs = c @ concat (replicate (length xs) ys)"
  by (induction xs arbitrary: c) auto

lemma cx_deferred_eq: "cx_deferred n L c = c @ concat (replicate L (cx_batch n))"
  by (simp add: cx_deferred_def cx_chain_eq foldl_const_append)

lemma emit_rz_eq: "emit_rz ops c = c @ map (\<lambda>(q, theta). RZ theta q) ops"
  unfolding emit_rz_def by (induction ops arbitrary: c) auto

lemma std_pair_loop:
  "idx s \<le> length params \<Longrightarrow> for_each [0..<m] (std_pair params) s =
     (if idx s + m \<le> length params
      then Inr \<lparr>qc = qc s @ concat (map (\<lambda>i. [CX i (i + 1), RZ (params ! (idx s + i)) (i + 1), CX i (i + 1)]) [0..<m]),
                idx = idx s + m\<rparr>
      else Inl IndexError)"
proof (induction m)
  case 0
  then show ?case by simp
next
  case (Suc m)
  show ?case
    unfolding for_each_snoc Suc.IH [OF Suc.prems]
    by (simp add: std_pair_def getitem_def)
qed

lemma rx_loop:
  "idx s \<le> length params \<Longrightarrow> for_each [0..<m] (rx_step params) s =
     (if idx s + m \<le> length params
      then Inr \<lparr>qc = qc s @ map (\<lambda>i. RX (params ! (idx s + i)) i) [0..<m], idx = idx s + m\<rparr>
      else Inl IndexError)"
proof (induction m)
  case 0
  then show ?case by simp
next
  case (Suc m)
  show ?case
    unfolding for_each_snoc Suc.IH [OF Suc.prems]
    by (simp add: rx_step_def getitem_def)
qed

lemma collect_loop:
  "j \<le> length params \<Longrightarrow> for_each [0..<m] (egs_collect params) (ops, j) =
     (if j + m \<le> length params
      then Inr (ops @ map (\<lambda>i. (i + 1, params ! (j + i))) [0..<m], j + m)
      else Inl IndexError)"
proof (induction m)
  case 0
  then show ?case by simp
next
  case (Suc m)
  show ?case
    unfolding for_each_snoc Suc.IH [OF Suc.prems]
    by (simp add: egs_collect_def getitem_def)
qed

lemma std_layer_eq:
  assumes "idx s \<le> length params"
  shows "std_layer n params l s =
     (if idx s + width n \<le> length params
      then Inr \<lparr>qc = qc s @ std_pairs params n (idx s) @ rx_batch params n (idx s),
                idx = idx s + width n\<rparr>
      else Inl IndexError)"
proof (cases "idx s + (n - 1) \<le> length params")
  case True
  then show ?thesis
    unfolding std_layer_def std_pair_loop [OF assms]
    by (auto simp add: rx_loop width_def std_pairs_def rx_batch_def add.assoc)
next
  case False
  then show ?thesis
    unfolding std_layer_def std_pair_loop [OF assms]
    by (simp add: width_def)
qed

lemma egs_layer_eq:
  assumes "idx s \<le> length params"
  shows "egs_layer n params l s =
     (if idx s + width n \<le> length params
      then Inr \<lparr>qc = qc s @ rz_batch params n (idx s) @ [Barrier] @ rx_batch params n (idx s) @ [Barrier],
                idx = idx s + width n\<rparr>
      else Inl IndexError)"
proof (cases "idx s + (n - 1) \<le> length params")
  case True
  then show ?thesis
    unfolding egs_layer_def collect_loop [OF assms]
    by (auto simp add: rx_loop emit_rz_eq width_def rz_batch_def rx_batch_def add.assoc comp_def)
next
  case False
  then show ?thesis
    unfolding egs_layer_def collect_loop [OF assms]
    by (simp add: width_def)
qed

lemma std_layers_loop:
  "for_each [0..<L] (std_layer n params) \<lparr>qc = c, idx = 0\<rparr> =
     (if L * width n \<le> length params
      then Inr \<lparr>qc = c @ std_layers params n L, idx = L * width n\<rparr>
      else Inl IndexError)"
proof (induction L)
  case 0
  show ?case by (simp add: std_layers_def)
next
  case (Suc L)
  show ?case
  proof (cases "L * width n \<le> length params")
    case True
    then show ?thesis
      unfolding for_each_snoc Suc.IH
      by (simp add: std_layer_eq std_layers_def add.commute)
  next
    case False
    then show ?thesis
      unfolding for_each_snoc Suc.IH by simp
  qed
qed

lemma egs_layers_loop:
  "for_each [0..<L] (egs_layer n params) \<lparr>qc = c, idx = 0\<rparr> =
     (if L * width n \<le> length params
      then Inr \<lparr>qc = c @ egs_layers params n L, idx = L * width n\<rparr>
      else Inl IndexError)"
proof (induction L)
  case 0
  show ?case by (simp add: egs_layers_def)
next
  case (Suc L)
  show ?case
  proof (cases "L * width n \<le> length params")
    case True
    then show ?thesis
      unfolding for_each_snoc Suc.IH
      by (simp add: egs_layer_eq egs_layers_def add.commute)
  next
    case False
    then show ?thesis
      unfolding for_each_snoc Suc.IH by simp
  qed
qed

lemma standard_closed:
  "build_genomic_ansatz_standard n L params =
     (if L * width n \<le> length params
      then Inr (map H [0..<n] @ std_layers params n L @ [Barrier] @ measurements n)
      else Inl IndexError)"
  by (simp add: build_genomic_ansatz_standard_def std_layers_loop h_all_eq measure_all_def
      measurements_def)

lemma egs_closed:
  "build_genomic_ansatz_egs n L params =
     (if L * width n \<le> length params
      then Inr (map H [0..<n] @ [Barrier] @ egs_layers params n L
                @ concat (replicate L (cx_batch n)) @ [Barrier] @ measurements n)
      else Inl IndexError)"
  by (simp add: build_genomic_ansatz_egs_def egs_layers_loop h_all_eq measure_all_def
      measurements_def cx_deferred_eq)

lemma n_params_width: "nat (n_params (int n) (int L)) = L * width n"
proof (cases n)
  case 0
  then show ?thesis by (simp add: n_params_def width_def)
next
  case (Suc m)
  have "n_params (int n) (int L) = int (L * width n)"
    unfolding n_params_def width_def Suc by (simp add: algebra_simps)
  then show ?thesis by (simp only: nat_int)
qed

lemma enough_iff: "(n_params (int n) (int L) \<le> int (length params)) = (L * width n \<le> length params)"
  using n_params_width [of n L] by linarith

lemma short_iff: "(int (length params) < n_params (int n) (int L)) = (\<not> L * width n \<le> length params)"
  using enough_iff [of n L params] by linarith

lemma filter_concat_map: "filter P (concat (map f xs)) = concat (map (\<lambda>x. filter P (f x)) xs)"
  by (induction xs) auto

lemma filter_map_all: "(\<And>x. P (f x)) \<Longrightarrow> filter P (map f xs) = map f xs"
  by (induction xs) auto

lemma filter_map_none: "(\<And>x. \<not> P (f x)) \<Longrightarrow> filter P (map f xs) = []"
  by (induction xs) auto

section \<open>Reading the stages\<close>

lemma rotations_simps:
  "rotations [] = []"
  "rotations (H q # c) = rotations c"
  "rotations (CX a b # c) = rotations c"
  "rotations (RZ theta q # c) = RZ theta q # rotations c"
  "rotations (RX theta q # c) = RX theta q # rotations c"
  "rotations (Barrier # c) = rotations c"
  "rotations (Measure q k # c) = rotations c"
  "rotations (c @ d) = rotations c @ rotations d"
  by (simp_all add: rotations_def is_rotation_def)

lemma entangling_simps:
  "entangling [] = []"
  "entangling (H q # c) = entangling c"
  "entangling (CX a b # c) = CX a b # entangling c"
  "entangling (RZ theta q # c) = entangling c"
  "entangling (RX theta q # c) = entangling c"
  "entangling (Barrier # c) = entangling c"
  "entangling (Measure q k # c) = entangling c"
  "entangling (c @ d) = entangling c @ entangling d"
  by (simp_all add: entangling_def is_entangling_def)

lemma other_gates_simps:
  "other_gates [] = []"
  "other_gates (H q # c) = H q # other_gates c"
  "other_gates (CX a b # c) = other_gates c"
  "other_gates (RZ theta q # c) = RZ theta q # other_gates c"
  "other_gates (RX theta q # c) = RX theta q # other_gates c"
  "other_gates (Barrier # c) = other_gates c"
  "other_gates (Measure q k # c) = Measure q k # other_gates c"
  "other_gates (c @ d) = other_gates c @ other_gates d"
  by (simp_all add: other_gates_def gates_def is_entangling_def)

lemma gates_simps:
  "gates [] = []"
  "gates (H q # c) = H q # gates c"
  "gates (CX a b # c) = CX a b # gates c"
  "gates (RZ theta q # c) = RZ theta q # gates c"
  "gates (RX theta q # c) = RX theta q # gates c"
  "gates (Barrier # c) = gates c"
  "gates (Measure q k # c) = Measure q k # gates c"
  "gates (c @ d) = gates c @ gates d"
  by (simp_all add: gates_def)

lemma rotations_maps:
  "rotations (map H xs) = []"
  "rotations (map (\<lambda>q. Measure q (k q)) xs) = []"
  "rotations (map (\<lambda>i. CX i (t i)) xs) = []"
  "rotations (map (\<lambda>i. RZ (p i) (t i)) xs) = map (\<lambda>i. RZ (p i) (t i)) xs"
  "rotations (map (\<lambda>i. RX (p i) (t i)) xs) = map (\<lambda>i. RX (p i) (t i)) xs"
  "rotations (concat (map (\<lambda>i. [CX i (t i), RZ (p i) (t i), CX i (t i)]) xs))
     = map (\<lambda>i. RZ (p i) (t i)) xs"
  by (induction xs) (simp_all add: rotations_simps)

lemma entangling_maps:
  "entangling (map H xs) = []"
  "entangling (map (\<lambda>q. Measure q (k q)) xs) = []"
  "entangling (map (\<lambda>i. CX i (t i)) xs) = map (\<lambda>i. CX i (t i)) xs"
  "entangling (map (\<lambda>i. RZ (p i) (t i)) xs) = []"
  "entangling (map (\<lambda>i. RX (p i) (t i)) xs) = []"
  "mset (entangling (concat (map (\<lambda>i. [CX i (t i), RZ (p i) (t i), CX i (t i)]) xs)))
     = mset (map (\<lambda>i. CX i (t i)) xs) + mset (map (\<lambda>i. CX i (t i)) xs)"
  by (induction xs) (simp_all add: entangling_simps)

lemma other_gates_maps:
  "other_gates (map H xs) = map H xs"
  "other_gates (map (\<lambda>q. Measure q (k q)) xs) = map (\<lambda>q. Measure q (k q)) xs"
  "other_gates (map (\<lambda>i. CX i (t i)) xs) = []"
  "other_gates (map (\<lambda>i. RZ (p i) (t i)) xs) = map (\<lambda>i. RZ (p i) (t i)) xs"
  "other_gates (map (\<lambda>i. RX (p i) (t i)) xs) = map (\<lambda>i. RX (p i) (t i)) xs"
  "other_gates (concat (map (\<lambda>i. [CX i (t i), RZ (p i) (t i), CX i (t i)]) xs))
     = map (\<lambda>i. RZ (p i) (t i)) xs"
  by (induction xs) (simp_all add: other_gates_simps)

lemma gates_maps:
  "gates (map H xs) = map H xs"
  "gates (map (\<lambda>q. Measure q (k q)) xs) = map (\<lambda>q. Measure q (k q)) xs"
  by (induction xs) (simp_all add: gates_simps)

lemma rotations_stage:
  "rotations (measurements n) = []"
  "rotations (cx_batch n) = []"
  "rotations (rz_batch params n b) = rz_batch params n b"
  "rotations (rx_batch params n b) = rx_batch params n b"
  "rotations (std_pairs params n b) = rz_batch params n b"
  by (simp_all add: measurements_def cx_batch_def rz_batch_def rx_batch_def std_pairs_def
      rotations_maps)

lemma entangling_stage:
  "entangling (measurements n) = []"
  "entangling (cx_batch n) = cx_batch n"
  "entangling (rz_batch params n b) = []"
  "entangling (rx_batch params n b) = []"
  "mset (entangling (std_pairs params n b)) = mset (cx_batch n) + mset (cx_batch n)"
  by (simp_all only: measurements_def cx_batch_def rz_batch_def rx_batch_def std_pairs_def
      entangling_maps)

lemma other_gates_stage:
  "other_gates (measurements n) = measurements n"
  "other_gates (cx_batch n) = []"
  "other_gates (rz_batch params n b) = rz_batch params n b"
  "other_gates (rx_batch params n b) = rx_batch params n b"
  "other_gates (std_pairs params n b) = rz_batch params n b"
  by (simp_all add: measurements_def cx_batch_def rz_batch_def rx_batch_def std_pairs_def
      other_gates_maps)

lemma rotations_std_layers:
  "rotations (std_layers params n L) =
     concat (map (\<lambda>l. rz_batch params n (l * width n) @ rx_batch params n (l * width n)) [0..<L])"
  by (induction L) (simp_all add: std_layers_def rotations_simps rotations_stage)

lemma rotations_egs_layers:
  "rotations (egs_layers params n L) =
     concat (map (\<lambda>l. rz_batch params n (l * width n) @ rx_batch params n (l * width n)) [0..<L])"
  by (induction L) (simp_all add: egs_layers_def rotations_simps rotations_stage)

lemma other_gates_std_layers:
  "other_gates (std_layers params n L) =
     concat (map (\<lambda>l. rz_batch params n (l * width n) @ rx_batch params n (l * width n)) [0..<L])"
  by (induction L) (simp_all add: std_layers_def other_gates_simps other_gates_stage)

lemma other_gates_egs_layers:
  "other_gates (egs_layers params n L) =
     concat (map (\<lambda>l. rz_batch params n (l * width n) @ rx_batch params n (l * width n)) [0..<L])"
  by (induction L) (simp_all add: egs_layers_def other_gates_simps other_gates_stage)

lemma entangling_egs_layers: "entangling (egs_layers params n L) = []"
  by (induction L) (simp_all add: egs_layers_def entangling_simps entangling_stage)

lemma mset_entangling_std_layers:
  "mset (entangling (std_layers params n L)) =
     mset (concat (replicate L (cx_batch n))) + mset (concat (replicate L (cx_batch n)))"
  by (induction L) (simp_all add: std_layers_def entangling_simps entangling_stage)

lemma entangling_replicate:
  "entangling (concat (replicate L (cx_batch n))) = concat (replicate L (cx_batch n))"
  by (induction L) (simp_all add: entangling_simps entangling_stage)

lemma rotations_replicate: "rotations (concat (replicate L (cx_batch n))) = []"
  by (induction L) (simp_all add: rotations_simps rotations_stage)

lemma other_gates_replicate: "other_gates (concat (replicate L (cx_batch n))) = []"
  by (induction L) (simp_all add: other_gates_simps other_gates_stage)

section \<open>The rotation bound to each parameter\<close>

lemma layer_rotations:
  "map (rotation_of n params) [b * width n..<b * width n + width n] =
     rz_batch params n (b * width n) @ rx_batch params n (b * width n)"
proof -
  let ?w = "width n"
  have w: "?w = (n - 1) + n" by (simp add: width_def)
  have split: "[b * ?w..<b * ?w + ?w] =
      map (\<lambda>i. b * ?w + i) [0..<n - 1] @ map (\<lambda>i. b * ?w + (n - 1) + i) [0..<n]"
  proof -
    have "[b * ?w..<b * ?w + ?w] = [b * ?w..<b * ?w + (n - 1)] @ [b * ?w + (n - 1)..<b * ?w + (n - 1) + n]"
      using upt_add_eq_append [of "b * ?w" "b * ?w + (n - 1)" n] by (simp add: w add.assoc)
    moreover have "[b * ?w..<b * ?w + (n - 1)] = map (\<lambda>i. b * ?w + i) [0..<n - 1]"
      using map_add_upt [of "b * ?w" "n - 1"] by (simp add: add.commute)
    moreover have "[b * ?w + (n - 1)..<b * ?w + (n - 1) + n] = map (\<lambda>i. b * ?w + (n - 1) + i) [0..<n]"
      using map_add_upt [of "b * ?w + (n - 1)" n] by (simp add: add.commute)
    ultimately show ?thesis by simp
  qed
  have rz: "map (rotation_of n params) (map (\<lambda>i. b * ?w + i) [0..<n - 1]) = rz_batch params n (b * ?w)"
    unfolding rz_batch_def map_map
  proof (rule map_cong [OF refl])
    fix i assume "i \<in> set [0..<n - 1]"
    then have i: "i < n - 1" by simp
    then have "i < ?w" by (simp add: w)
    then have "(b * ?w + i) mod ?w = i" by simp
    then show "(rotation_of n params \<circ> (\<lambda>i. b * ?w + i)) i = RZ (params ! (b * ?w + i)) (i + 1)"
      using i by (simp add: rotation_of_def)
  qed
  have rx: "map (rotation_of n params) (map (\<lambda>i. b * ?w + (n - 1) + i) [0..<n]) = rx_batch params n (b * ?w)"
    unfolding rx_batch_def map_map
  proof (rule map_cong [OF refl])
    fix i assume "i \<in> set [0..<n]"
    then have i: "i < n" by simp
    then have "(n - 1) + i < ?w" by (simp add: w)
    then have "(b * ?w + ((n - 1) + i)) mod ?w = (n - 1) + i" by simp
    then have "(b * ?w + (n - 1) + i) mod ?w = (n - 1) + i" by (simp only: add.assoc)
    then show "(rotation_of n params \<circ> (\<lambda>i. b * ?w + (n - 1) + i)) i = RX (params ! (b * ?w + (n - 1) + i)) i"
      by (simp add: rotation_of_def)
  qed
  show ?thesis unfolding split map_append rz rx ..
qed

lemma all_rotations:
  "concat (map (\<lambda>l. rz_batch params n (l * width n) @ rx_batch params n (l * width n)) [0..<L])
     = map (rotation_of n params) [0..<L * width n]"
proof (induction L)
  case 0
  show ?case by simp
next
  case (Suc L)
  have "[0..<Suc L * width n] = [0..<L * width n] @ [L * width n..<L * width n + width n]"
    using upt_add_eq_append [of 0 "L * width n" "width n"] by (simp add: add.commute)
  then show ?case
    using Suc.IH by (simp add: layer_rotations)
qed

section \<open>Entries beyond the required length\<close>

lemma rz_batch_take:
  "b + (n - 1) \<le> k \<Longrightarrow> rz_batch (take k params) n b = rz_batch params n b"
  by (simp add: rz_batch_def)

lemma std_pairs_take:
  "b + (n - 1) \<le> k \<Longrightarrow> std_pairs (take k params) n b = std_pairs params n b"
  unfolding std_pairs_def
  by (rule arg_cong [where f = concat], rule map_cong [OF refl]) simp

lemma rx_batch_take:
  "b + width n \<le> k \<Longrightarrow> rx_batch (take k params) n b = rx_batch params n b"
  by (simp add: rx_batch_def width_def)

lemma layer_fits:
  assumes "L * width n \<le> k" and "l < L"
  shows "l * width n + width n \<le> k"
proof -
  have "Suc l * width n \<le> L * width n"
    using assms(2) by (intro mult_le_mono1) simp
  then show ?thesis using assms(1) by (simp add: add.commute)
qed

lemma std_layers_take:
  assumes "L * width n \<le> k"
  shows "std_layers (take k params) n L = std_layers params n L"
  unfolding std_layers_def
proof (rule arg_cong [where f = concat], rule map_cong [OF refl])
  fix l assume "l \<in> set [0..<L]"
  then have "l * width n + width n \<le> k"
    using layer_fits [OF assms] by simp
  then show "std_pairs (take k params) n (l * width n) @ rx_batch (take k params) n (l * width n)
      = std_pairs params n (l * width n) @ rx_batch params n (l * width n)"
    by (simp add: std_pairs_take rx_batch_take width_def)
qed

lemma egs_layers_take:
  assumes "L * width n \<le> k"
  shows "egs_layers (take k params) n L = egs_layers params n L"
  unfolding egs_layers_def
proof (rule arg_cong [where f = concat], rule map_cong [OF refl])
  fix l assume "l \<in> set [0..<L]"
  then have "l * width n + width n \<le> k"
    using layer_fits [OF assms] by simp
  then show "rz_batch (take k params) n (l * width n) @ [Barrier]
        @ rx_batch (take k params) n (l * width n) @ [Barrier]
      = rz_batch params n (l * width n) @ [Barrier] @ rx_batch params n (l * width n) @ [Barrier]"
    by (simp add: rz_batch_take rx_batch_take width_def)
qed

lemma entangling_gates: "entangling (gates c) = entangling c"
  by (induction c) (auto simp: entangling_def gates_def is_entangling_def)

section \<open>The benchmark on the stand-in\<close>

lemma stand_in_built:
  "fst (build_circuits (stand_in cf rf) 2 1 g) =
     Inr ([H 0, H 1, CX 0 1, RZ (- pi) 1, CX 0 1, RX (- pi) 0, RX (- pi) 1, Barrier,
           Measure 0 0, Measure 1 1],
          [H 0, H 1, Barrier, RZ (- pi) 1, Barrier, RX (- pi) 0, RX (- pi) 1, Barrier, CX 0 1,
           Barrier, Measure 0 0, Measure 1 1])"
proof -
  have two: "[0..<2] = [0, 1]" by (simp add: upt_rec)
  have three: "replicate (nat 3) (- pi) = [- pi, - pi, - pi]" by (simp add: numeral_3_eq_3)
  show ?thesis
    by (simp add: build_circuits_def draw_params_def stand_in_def n_params_def three
        standard_closed egs_closed width_def std_layers_def egs_layers_def
        std_pairs_def rz_batch_def rx_batch_def cx_batch_def measurements_def two)
qed

lemma stand_in_run:
  "fst (run_egs_benchmark (stand_in cf rf) 2 1 g) =
     compile_and_measure (stand_in cf rf)
       [H 0, H 1, CX 0 1, RZ (- pi) 1, CX 0 1, RX (- pi) 0, RX (- pi) 1, Barrier,
        Measure 0 0, Measure 1 1]
       [H 0, H 1, Barrier, RZ (- pi) 1, Barrier, RX (- pi) 0, RX (- pi) 1, Barrier, CX 0 1,
        Barrier, Measure 0 0, Measure 1 1]"
proof -
  obtain g2 where "build_circuits (stand_in cf rf) 2 1 g
      = (Inr ([H 0, H 1, CX 0 1, RZ (- pi) 1, CX 0 1, RX (- pi) 0, RX (- pi) 1, Barrier,
           Measure 0 0, Measure 1 1],
          [H 0, H 1, Barrier, RZ (- pi) 1, Barrier, RX (- pi) 0, RX (- pi) 1, Barrier, CX 0 1,
           Barrier, Measure 0 0, Measure 1 1]), g2)"
    using stand_in_built [of cf rf g]
    by (cases "build_circuits (stand_in cf rf) 2 1 g") simp
  then show ?thesis
    by (simp add: run_egs_benchmark_def)
qed

section \<open>The claims\<close>

text \<open>
  Claim C1, as the code has it. On a vector that is long enough, the two builders give
  circuits with the same multiset of rotation gates (kind, target, angle) and the same
  multiset of \<open>h\<close> and measurement instructions. The entangling gates are not the same:
  the Standard circuit has every \<open>cx\<close> of the EGS circuit twice (a \<open>cx\<close> before and a \<open>cx\<close>
  after each \<open>rz\<close>, against one deferred \<open>cx\<close> per pair and layer), so for
  \<open>n_qubits \<ge> 2\<close> and \<open>n_layers \<ge> 1\<close> the multisets of gates differ.
\<close>

theorem gate_multisets:
  fixes params :: "'a list"
  assumes "n_params (int n_qubits) (int layers) \<le> int (length params)"
  shows "\<exists>s e. build_genomic_ansatz_standard n_qubits layers params = Inr s
             \<and> build_genomic_ansatz_egs n_qubits layers params = Inr e
             \<and> mset (rotations s) = mset (rotations e)
             \<and> mset (other_gates s) = mset (other_gates e)
             \<and> mset (entangling s) = mset (entangling e) + mset (entangling e)
             \<and> (2 \<le> n_qubits \<and> 1 \<le> layers \<longrightarrow> mset (gates s) \<noteq> mset (gates e))"
proof -
  have fits: "layers * width n_qubits \<le> length params"
    using assms by (simp only: enough_iff)
  let ?s = "map H [0..<n_qubits] @ std_layers params n_qubits layers @ [Barrier] @ measurements n_qubits"
  let ?e = "map H [0..<n_qubits] @ [Barrier] @ egs_layers params n_qubits layers
                @ concat (replicate layers (cx_batch n_qubits)) @ [Barrier] @ measurements n_qubits"
  let ?cx = "concat (replicate layers (cx_batch n_qubits)) :: 'a instruction list"
  have s: "build_genomic_ansatz_standard n_qubits layers params = Inr ?s"
    by (simp add: standard_closed fits)
  have e: "build_genomic_ansatz_egs n_qubits layers params = Inr ?e"
    by (simp add: egs_closed fits)
  have rot: "rotations ?s = rotations ?e"
    by (simp add: rotations_simps rotations_maps rotations_stage rotations_replicate
        rotations_std_layers rotations_egs_layers)
  have oth: "other_gates ?s = other_gates ?e"
    by (simp add: other_gates_simps other_gates_maps other_gates_stage other_gates_replicate
        other_gates_std_layers other_gates_egs_layers)
  have ent_e: "entangling ?e = ?cx"
    by (simp add: entangling_simps entangling_maps entangling_stage entangling_replicate
        entangling_egs_layers)
  have ent_s: "mset (entangling ?s) = mset (entangling ?e) + mset (entangling ?e)"
    unfolding ent_e
    by (simp add: entangling_simps entangling_maps entangling_stage mset_entangling_std_layers)
  have differ: "mset (gates ?s) \<noteq> mset (gates ?e)" if big: "2 \<le> n_qubits \<and> 1 \<le> layers"
  proof
    assume eq: "mset (gates ?s) = mset (gates ?e)"
    have "mset (entangling ?s) = mset (entangling (gates ?s))"
      by (simp only: entangling_gates)
    also have "\<dots> = filter_mset is_entangling (mset (gates ?s))"
      by (simp only: entangling_def mset_filter)
    also have "\<dots> = filter_mset is_entangling (mset (gates ?e))"
      by (simp only: eq)
    also have "\<dots> = mset (entangling (gates ?e))"
      by (simp only: entangling_def mset_filter)
    also have "\<dots> = mset (entangling ?e)"
      by (simp only: entangling_gates)
    finally have same: "mset (entangling ?s) = mset (entangling ?e)" .
    from ent_s [symmetric] same
    have "mset (entangling ?e) + mset (entangling ?e) = mset (entangling ?e)"
      by (rule trans)
    then have "mset (entangling ?e) = {#}"
      by (metis add_cancel_left_left)
    then have "entangling ?e = []"
      by (simp only: mset_zero_iff)
    with ent_e [symmetric] have "?cx = []"
      by (rule trans)
    then have "length ?cx = 0"
      by simp
    moreover have "length ?cx = layers * (n_qubits - 1)"
      by (induction layers) (simp_all add: cx_batch_def)
    ultimately show False using big by simp
  qed
  show ?thesis
  proof (intro exI conjI impI)
    show "build_genomic_ansatz_standard n_qubits layers params = Inr ?s" by (rule s)
    show "build_genomic_ansatz_egs n_qubits layers params = Inr ?e" by (rule e)
    show "mset (rotations ?s) = mset (rotations ?e)" by (simp only: rot)
    show "mset (other_gates ?s) = mset (other_gates ?e)" by (simp only: oth)
    show "mset (entangling ?s) = mset (entangling ?e) + mset (entangling ?e)" by (rule ent_s)
    assume "2 \<le> n_qubits \<and> 1 \<le> layers"
    then show "mset (gates ?s) \<noteq> mset (gates ?e)" by (rule differ)
  qed
qed

theorem gate_multisets_witness:
  "n_params (int 2) (int 1) \<le> int (length [1, 2, 3 :: int])
   \<and> (\<exists>s e. build_genomic_ansatz_standard 2 1 [1, 2, 3 :: int] = Inr s
          \<and> build_genomic_ansatz_egs 2 1 [1, 2, 3 :: int] = Inr e
          \<and> mset (rotations s) = mset (rotations e)
          \<and> mset (other_gates s) = mset (other_gates e)
          \<and> mset (entangling s) = mset (entangling e) + mset (entangling e)
          \<and> mset (gates s) \<noteq> mset (gates e))"
proof -
  have h: "n_params (int 2) (int 1) \<le> int (length [1, 2, 3 :: int])"
    by (simp add: n_params_def)
  from gate_multisets [OF h] h show ?thesis by simp
qed

text \<open>
  Claim C1 as stated fails: with two qubits, one layer and the angles 1, 2, 3 the
  Standard circuit has two \<open>cx\<close> gates on the pair (0, 1) and the EGS circuit one.
\<close>

theorem gate_multisets_differ:
  "build_genomic_ansatz_standard 2 1 [1, 2, 3 :: int]
     = Inr [H 0, H 1, CX 0 1, RZ 1 1, CX 0 1, RX 2 0, RX 3 1, Barrier, Measure 0 0, Measure 1 1]
   \<and> build_genomic_ansatz_egs 2 1 [1, 2, 3 :: int]
     = Inr [H 0, H 1, Barrier, RZ 1 1, Barrier, RX 2 0, RX 3 1, Barrier, CX 0 1,
            Barrier, Measure 0 0, Measure 1 1]
   \<and> mset (gates [H 0, H 1, CX 0 1, RZ (1::int) 1, CX 0 1, RX 2 0, RX 3 1, Barrier,
                   Measure 0 0, Measure 1 1])
     \<noteq> mset (gates [H 0, H 1, Barrier, RZ (1::int) 1, Barrier, RX 2 0, RX 3 1, Barrier, CX 0 1,
                   Barrier, Measure 0 0, Measure 1 1])"
proof -
  have two: "[0..<2] = [0, 1]" by (simp add: upt_rec)
  have "size (mset (gates [H 0, H 1, CX 0 1, RZ (1::int) 1, CX 0 1, RX 2 0, RX 3 1, Barrier,
                   Measure 0 0, Measure 1 1]))
     \<noteq> size (mset (gates [H 0, H 1, Barrier, RZ (1::int) 1, Barrier, RX 2 0, RX 3 1, Barrier, CX 0 1,
                   Barrier, Measure 0 0, Measure 1 1]))"
    by (simp add: gates_def)
  then have "mset (gates [H 0, H 1, CX 0 1, RZ (1::int) 1, CX 0 1, RX 2 0, RX 3 1, Barrier,
                   Measure 0 0, Measure 1 1])
     \<noteq> mset (gates [H 0, H 1, Barrier, RZ (1::int) 1, Barrier, RX 2 0, RX 3 1, Barrier, CX 0 1,
                   Barrier, Measure 0 0, Measure 1 1])"
    by metis
  then show ?thesis
    by (simp add: standard_closed egs_closed width_def std_layers_def egs_layers_def
        std_pairs_def rz_batch_def rx_batch_def cx_batch_def measurements_def two)
qed

text \<open>
  Claim C2, as the code has it. A parameter vector shorter than
  \<open>n_layers * (n_qubits + (n_qubits - 1))\<close> makes either builder fail during construction, at
  the first read beyond the vector, with Python's \<open>IndexError\<close>; no index wraps around and
  no circuit is returned.
\<close>

theorem short_vector_index_error:
  assumes "int (length params) < n_params (int n_qubits) (int layers)"
  shows "build_genomic_ansatz_standard n_qubits layers params = Inl IndexError
       \<and> build_genomic_ansatz_egs n_qubits layers params = Inl IndexError"
  using assms unfolding short_iff standard_closed egs_closed by simp

theorem short_vector_index_error_witness:
  "int (length [1, 2 :: int]) < n_params (int 2) (int 1)
   \<and> build_genomic_ansatz_standard 2 1 [1, 2 :: int] = Inl IndexError
   \<and> build_genomic_ansatz_egs 2 1 [1, 2 :: int] = Inl IndexError"
proof -
  have h: "int (length [1, 2 :: int]) < n_params (int 2) (int 1)"
    by (simp add: n_params_def)
  from short_vector_index_error [OF h] h show ?thesis by simp
qed

text \<open>
  Claim C2 as stated fails: on the empty vector, two qubits and one layer, the exception
  of either builder is not \<open>InsufficientParametersError\<close>.
\<close>

theorem short_vector_not_insufficient_parameters:
  "int (length ([] :: int list)) < n_params (int 2) (int 1)
   \<and> build_genomic_ansatz_standard 2 1 ([] :: int list) = Inl IndexError
   \<and> build_genomic_ansatz_egs 2 1 ([] :: int list) = Inl IndexError
   \<and> build_genomic_ansatz_standard 2 1 ([] :: int list) \<noteq> Inl InsufficientParametersError
   \<and> build_genomic_ansatz_egs 2 1 ([] :: int list) \<noteq> Inl InsufficientParametersError"
  by (simp add: n_params_def standard_closed egs_closed width_def)

text \<open>
  Claim C3. On a vector that is long enough, the rotation gates of the Standard circuit
  and of the EGS circuit, read in circuit order, are the same list: its entry \<open>N\<close> is the
  rotation bound to parameter \<open>N\<close>, with angle \<open>params[N]\<close>; within each layer the first
  \<open>n_qubits - 1\<close> parameters go to the \<open>rz\<close> of qubits \<open>1, 2, ...\<close> and the next \<open>n_qubits\<close> to
  the \<open>rx\<close> of qubits \<open>0, 1, ...\<close>.
\<close>

theorem same_parameter_binding:
  assumes "n_params (int n_qubits) (int layers) \<le> int (length params)"
  shows "\<exists>s e. build_genomic_ansatz_standard n_qubits layers params = Inr s
             \<and> build_genomic_ansatz_egs n_qubits layers params = Inr e
             \<and> rotations s = map (rotation_of n_qubits params)
                               [0..<nat (n_params (int n_qubits) (int layers))]
             \<and> rotations e = map (rotation_of n_qubits params)
                               [0..<nat (n_params (int n_qubits) (int layers))]"
proof -
  have fits: "layers * width n_qubits \<le> length params"
    using assms by (simp only: enough_iff)
  show ?thesis
    unfolding n_params_width
    by (simp add: standard_closed egs_closed fits rotations_simps rotations_maps
        rotations_stage rotations_replicate rotations_std_layers rotations_egs_layers
        all_rotations)
qed

theorem same_parameter_binding_witness:
  "n_params (int 2) (int 2) \<le> int (length [10, 20, 30, 40, 50, 60 :: int])
   \<and> (\<exists>s e. build_genomic_ansatz_standard 2 2 [10, 20, 30, 40, 50, 60 :: int] = Inr s
          \<and> build_genomic_ansatz_egs 2 2 [10, 20, 30, 40, 50, 60 :: int] = Inr e
          \<and> rotations s = [RZ 10 1, RX 20 0, RX 30 1, RZ 40 1, RX 50 0, RX 60 1]
          \<and> rotations e = [RZ 10 1, RX 20 0, RX 30 1, RZ 40 1, RX 50 0, RX 60 1])"
proof -
  let ?p = "[10, 20, 30, 40, 50, 60 :: int]"
  have h: "n_params (int 2) (int 2) \<le> int (length ?p)"
    by (simp add: n_params_def)
  have bound: "map (rotation_of 2 ?p) [0..<nat (n_params (int 2) (int 2))]
      = [RZ 10 1, RX 20 0, RX 30 1, RZ 40 1, RX 50 0, RX 60 1]"
    by code_simp
  from same_parameter_binding [OF h] h show ?thesis
    unfolding bound by (rule conjI [rotated])
qed

text \<open>
  Claim C4. On a vector that is long enough, the EGS circuit is: the \<open>h\<close> gates and a
  barrier; for each layer the batch of \<open>rz\<close> gates, a barrier, the batch of \<open>rx\<close> gates, a
  barrier; then the \<open>cx\<close> chains of all layers together; then the barrier and the
  measurements of \<open>measure_all\<close>. No \<open>cx\<close> occurs before the final stage, the final stage
  has only \<open>cx\<close> gates, and no rotation occurs in it or after it.
\<close>

theorem egs_stages:
  fixes params :: "'a list"
  assumes "n_params (int n_qubits) (int layers) \<le> int (length params)"
  shows "build_genomic_ansatz_egs n_qubits layers params =
           Inr (map H [0..<n_qubits] @ [Barrier]
                @ concat (map (\<lambda>l. rz_batch params n_qubits (l * width n_qubits) @ [Barrier]
                                   @ rx_batch params n_qubits (l * width n_qubits) @ [Barrier])
                            [0..<layers])
                @ concat (replicate layers (cx_batch n_qubits))
                @ [Barrier] @ map (\<lambda>q. Measure q q) [0..<n_qubits])
       \<and> entangling (map H [0..<n_qubits] @ [Barrier]
                @ concat (map (\<lambda>l. rz_batch params n_qubits (l * width n_qubits) @ [Barrier]
                                   @ rx_batch params n_qubits (l * width n_qubits) @ [Barrier])
                            [0..<layers])) = []
       \<and> entangling (concat (replicate layers (cx_batch n_qubits)) :: 'a instruction list)
           = concat (replicate layers (cx_batch n_qubits))
       \<and> entangling ([Barrier] @ map (\<lambda>q. Measure q q) [0..<n_qubits] :: 'a instruction list)
           = []
       \<and> rotations (concat (replicate layers (cx_batch n_qubits))
                @ [Barrier] @ map (\<lambda>q. Measure q q) [0..<n_qubits] :: 'a instruction list)
           = []"
proof -
  have fits: "layers * width n_qubits \<le> length params"
    using assms by (simp only: enough_iff)
  show ?thesis
    unfolding egs_layers_def [symmetric] measurements_def [symmetric]
    by (simp add: egs_closed fits entangling_replicate entangling_simps entangling_maps
        entangling_stage entangling_egs_layers rotations_simps rotations_replicate
        rotations_stage)
qed

theorem egs_stages_witness:
  "n_params (int 3) (int 2) \<le> int (length [1, 2, 3, 4, 5, 6, 7, 8, 9, 10 :: int])
   \<and> build_genomic_ansatz_egs 3 2 [1, 2, 3, 4, 5, 6, 7, 8, 9, 10 :: int] =
       Inr [H 0, H 1, H 2, Barrier,
            RZ 1 1, RZ 2 2, Barrier, RX 3 0, RX 4 1, RX 5 2, Barrier,
            RZ 6 1, RZ 7 2, Barrier, RX 8 0, RX 9 1, RX 10 2, Barrier,
            CX 0 1, CX 1 2, CX 0 1, CX 1 2,
            Barrier, Measure 0 0, Measure 1 1, Measure 2 2]"
proof -
  let ?p = "[1, 2, 3, 4, 5, 6, 7, 8, 9, 10 :: int]"
  have h: "n_params (int 3) (int 2) \<le> int (length ?p)"
    by (simp add: n_params_def)
  have stages: "map H [0..<3] @ [Barrier]
        @ concat (map (\<lambda>l. rz_batch ?p 3 (l * width 3) @ [Barrier]
                           @ rx_batch ?p 3 (l * width 3) @ [Barrier]) [0..<2])
        @ concat (replicate 2 (cx_batch 3))
        @ [Barrier] @ map (\<lambda>q. Measure q q) [0..<3]
      = [H 0, H 1, H 2, Barrier,
            RZ 1 1, RZ 2 2, Barrier, RX 3 0, RX 4 1, RX 5 2, Barrier,
            RZ 6 1, RZ 7 2, Barrier, RX 8 0, RX 9 1, RX 10 2, Barrier,
            CX 0 1, CX 1 2, CX 0 1, CX 1 2,
            Barrier, Measure 0 0, Measure 1 1, Measure 2 2]"
    by code_simp
  from egs_stages [OF h] have "build_genomic_ansatz_egs 3 2 ?p =
      Inr (map H [0..<3] @ [Barrier]
        @ concat (map (\<lambda>l. rz_batch ?p 3 (l * width 3) @ [Barrier]
                           @ rx_batch ?p 3 (l * width 3) @ [Barrier]) [0..<2])
        @ concat (replicate 2 (cx_batch 3))
        @ [Barrier] @ map (\<lambda>q. Measure q q) [0..<3])"
    by (rule conjunct1)
  then have "build_genomic_ansatz_egs 3 2 ?p =
       Inr [H 0, H 1, H 2, Barrier,
            RZ 1 1, RZ 2 2, Barrier, RX 3 0, RX 4 1, RX 5 2, Barrier,
            RZ 6 1, RZ 7 2, Barrier, RX 8 0, RX 9 1, RX 10 2, Barrier,
            CX 0 1, CX 1 2, CX 0 1, CX 1 2,
            Barrier, Measure 0 0, Measure 1 1, Measure 2 2]"
    unfolding stages .
  with h show ?thesis by (rule conjI)
qed

text \<open>
  Claim C8. With \<open>n_layers = 0\<close> the required length is 0, both builders succeed on any
  vector (the empty one included), and the circuit has the \<open>h\<close> gate of every qubit, the
  measurement of every qubit and barriers only: no rotation and no \<open>cx\<close>.
\<close>

theorem zero_layers:
  fixes params :: "'a list"
  shows "n_params (int n_qubits) (int 0) = 0
   \<and> build_genomic_ansatz_standard n_qubits 0 params
       = Inr (map H [0..<n_qubits] @ [Barrier] @ map (\<lambda>q. Measure q q) [0..<n_qubits])
   \<and> build_genomic_ansatz_egs n_qubits 0 params
       = Inr (map H [0..<n_qubits] @ [Barrier, Barrier] @ map (\<lambda>q. Measure q q) [0..<n_qubits])
   \<and> gates (map H [0..<n_qubits] @ [Barrier] @ map (\<lambda>q. Measure q q) [0..<n_qubits]
             :: 'a instruction list)
       = map H [0..<n_qubits] @ map (\<lambda>q. Measure q q) [0..<n_qubits]
   \<and> gates (map H [0..<n_qubits] @ [Barrier, Barrier] @ map (\<lambda>q. Measure q q) [0..<n_qubits]
             :: 'a instruction list)
       = map H [0..<n_qubits] @ map (\<lambda>q. Measure q q) [0..<n_qubits]"
  by (simp add: n_params_def standard_closed egs_closed std_layers_def egs_layers_def
      measurements_def gates_simps gates_maps)

theorem zero_layers_witness:
  "build_genomic_ansatz_standard 2 0 ([] :: int list)
     = Inr [H 0, H 1, Barrier, Measure 0 0, Measure 1 1]
   \<and> build_genomic_ansatz_egs 2 0 ([] :: int list)
     = Inr [H 0, H 1, Barrier, Barrier, Measure 0 0, Measure 1 1]"
proof -
  have two: "[0..<2] = [0, 1]" by (simp add: upt_rec)
  from zero_layers [where n_qubits = 2 and params = "[] :: int list"] show ?thesis
    by (simp add: two)
qed

text \<open>
  Claim C9. A parameter vector strictly longer than \<open>n_layers * (n_qubits + (n_qubits - 1))\<close>
  is accepted by both builders. The circuits are the closed forms of the loops, whose
  rotation gates, in circuit order, carry the entries \<open>params[0]\<close>, \<open>params[1]\<close>, ... up to
  the required length, one each and in this order; the entries beyond it are never read:
  the vector cut to the required length gives the same circuit.
\<close>

theorem longer_vector_ignored:
  fixes params :: "'a list"
  assumes "n_params (int n_qubits) (int layers) < int (length params)"
  shows "build_genomic_ansatz_standard n_qubits layers params
           = Inr (map H [0..<n_qubits] @ std_layers params n_qubits layers
                  @ [Barrier] @ measurements n_qubits)
       \<and> build_genomic_ansatz_standard n_qubits layers
             (take (nat (n_params (int n_qubits) (int layers))) params)
           = build_genomic_ansatz_standard n_qubits layers params
       \<and> build_genomic_ansatz_egs n_qubits layers params
           = Inr (map H [0..<n_qubits] @ [Barrier] @ egs_layers params n_qubits layers
                  @ concat (replicate layers (cx_batch n_qubits))
                  @ [Barrier] @ measurements n_qubits)
       \<and> build_genomic_ansatz_egs n_qubits layers
             (take (nat (n_params (int n_qubits) (int layers))) params)
           = build_genomic_ansatz_egs n_qubits layers params
       \<and> rotations (map H [0..<n_qubits] @ std_layers params n_qubits layers
                     @ [Barrier] @ measurements n_qubits)
           = map (rotation_of n_qubits params) [0..<nat (n_params (int n_qubits) (int layers))]
       \<and> rotations (map H [0..<n_qubits] @ [Barrier] @ egs_layers params n_qubits layers
                     @ concat (replicate layers (cx_batch n_qubits))
                     @ [Barrier] @ measurements n_qubits)
           = map (rotation_of n_qubits params) [0..<nat (n_params (int n_qubits) (int layers))]"
proof -
  let ?k = "layers * width n_qubits"
  have k: "nat (n_params (int n_qubits) (int layers)) = ?k"
    by (rule n_params_width)
  have fits: "?k \<le> length params"
    using assms enough_iff [of n_qubits layers params] by simp
  then have fits': "?k \<le> length (take ?k params)" by simp
  have s: "build_genomic_ansatz_standard n_qubits layers params
           = Inr (map H [0..<n_qubits] @ std_layers params n_qubits layers
                  @ [Barrier] @ measurements n_qubits)"
    using fits by (simp add: standard_closed)
  have e: "build_genomic_ansatz_egs n_qubits layers params
           = Inr (map H [0..<n_qubits] @ [Barrier] @ egs_layers params n_qubits layers
                  @ concat (replicate layers (cx_batch n_qubits))
                  @ [Barrier] @ measurements n_qubits)"
    using fits by (simp add: egs_closed)
  have st: "build_genomic_ansatz_standard n_qubits layers (take ?k params)
           = build_genomic_ansatz_standard n_qubits layers params"
    unfolding standard_closed using fits fits' by (simp add: std_layers_take)
  have et: "build_genomic_ansatz_egs n_qubits layers (take ?k params)
           = build_genomic_ansatz_egs n_qubits layers params"
    unfolding egs_closed using fits fits' by (simp add: egs_layers_take)
  have rs: "rotations (map H [0..<n_qubits] @ std_layers params n_qubits layers
                     @ [Barrier] @ measurements n_qubits)
           = map (rotation_of n_qubits params) [0..<?k]"
    by (simp add: rotations_simps rotations_maps rotations_stage rotations_std_layers
        all_rotations)
  have re: "rotations (map H [0..<n_qubits] @ [Barrier] @ egs_layers params n_qubits layers
                     @ concat (replicate layers (cx_batch n_qubits))
                     @ [Barrier] @ measurements n_qubits)
           = map (rotation_of n_qubits params) [0..<?k]"
    by (simp add: rotations_simps rotations_maps rotations_stage rotations_replicate
        rotations_egs_layers all_rotations)
  show ?thesis
    unfolding k using s e st et rs re by blast
qed

theorem longer_vector_ignored_witness:
  "n_params (int 2) (int 1) < int (length [1, 2, 3, 4, 5 :: int])
   \<and> build_genomic_ansatz_standard 2 1 [1, 2, 3, 4, 5 :: int]
       = Inr [H 0, H 1, CX 0 1, RZ 1 1, CX 0 1, RX 2 0, RX 3 1, Barrier, Measure 0 0, Measure 1 1]
   \<and> build_genomic_ansatz_standard 2 1 [1, 2, 3 :: int]
       = build_genomic_ansatz_standard 2 1 [1, 2, 3, 4, 5]
   \<and> build_genomic_ansatz_egs 2 1 [1, 2, 3, 4, 5 :: int]
       = Inr [H 0, H 1, Barrier, RZ 1 1, Barrier, RX 2 0, RX 3 1, Barrier, CX 0 1,
              Barrier, Measure 0 0, Measure 1 1]
   \<and> build_genomic_ansatz_egs 2 1 [1, 2, 3 :: int]
       = build_genomic_ansatz_egs 2 1 [1, 2, 3, 4, 5]
   \<and> rotations [H 0, H 1, CX 0 1, RZ 1 1, CX 0 1, RX 2 0, RX 3 1, Barrier,
                 Measure 0 0, Measure 1 1]
       = [RZ (1 :: int) 1, RX 2 0, RX 3 1]
   \<and> rotations [H 0, H 1, Barrier, RZ 1 1, Barrier, RX 2 0, RX 3 1, Barrier, CX 0 1,
                 Barrier, Measure 0 0, Measure 1 1]
       = [RZ (1 :: int) 1, RX 2 0, RX 3 1]"
proof -
  let ?p = "[1, 2, 3, 4, 5 :: int]"
  have h: "n_params (int 2) (int 1) < int (length ?p)"
    by (simp add: n_params_def)
  have t: "take (nat (n_params (int 2) (int 1))) ?p = [1, 2, 3]"
    by (simp add: n_params_def)
  have cs: "map H [0..<2] @ std_layers ?p 2 1 @ [Barrier] @ measurements 2
      = [H 0, H 1, CX 0 1, RZ 1 1, CX 0 1, RX 2 0, RX 3 1, Barrier, Measure 0 0, Measure 1 1]"
    by code_simp
  have ce: "map H [0..<2] @ [Barrier] @ egs_layers ?p 2 1 @ concat (replicate 1 (cx_batch 2))
        @ [Barrier] @ measurements 2
      = [H 0, H 1, Barrier, RZ 1 1, Barrier, RX 2 0, RX 3 1, Barrier, CX 0 1,
         Barrier, Measure 0 0, Measure 1 1]"
    by code_simp
  have r: "map (rotation_of 2 ?p) [0..<nat (n_params (int 2) (int 1))]
      = [RZ 1 1, RX 2 0, RX 3 1]"
    by code_simp
  from longer_vector_ignored [OF h] h show ?thesis
    unfolding t cs ce r by blast
qed

text \<open>
  Claim C5, as the code has it. Once both circuits are built, the first collaborator
  call that fails decides the outcome of \<open>run_egs_benchmark\<close>: the exception of the
  compiler on the Standard circuit, else of the compiler on the EGS circuit, else of the
  execution of the Standard circuit, else of the execution of the EGS circuit. It reaches
  the caller as it was raised, with no catch, no retry and no report.
\<close>

theorem failures_propagate_unchanged:
  assumes built: "fst (build_circuits env n_qubits n_layers g) = Inr (qc_std, qc_egs)"
  shows "(transpile env qc_std = Inl e
            \<longrightarrow> fst (run_egs_benchmark env n_qubits n_layers g) = Inl e)
       \<and> (transpile env qc_std = Inr c_std \<and> transpile env qc_egs = Inl e
            \<longrightarrow> fst (run_egs_benchmark env n_qubits n_layers g) = Inl e)
       \<and> (transpile env qc_std = Inr c_std \<and> transpile env qc_egs = Inr c_egs
            \<and> run_get_counts env c_std SHOTS = Inl e
            \<longrightarrow> fst (run_egs_benchmark env n_qubits n_layers g) = Inl e)
       \<and> (transpile env qc_std = Inr c_std \<and> transpile env qc_egs = Inr c_egs
            \<and> run_get_counts env c_std SHOTS = Inr counts_std
            \<and> run_get_counts env c_egs SHOTS = Inl e
            \<longrightarrow> fst (run_egs_benchmark env n_qubits n_layers g) = Inl e)"
proof -
  obtain g2 where b: "build_circuits env n_qubits n_layers g = (Inr (qc_std, qc_egs), g2)"
    using built by (cases "build_circuits env n_qubits n_layers g") simp
  have r: "fst (run_egs_benchmark env n_qubits n_layers g) = compile_and_measure env qc_std qc_egs"
    by (simp add: run_egs_benchmark_def b)
  show ?thesis
    unfolding r by (simp add: compile_and_measure_def)
qed

theorem failures_propagate_unchanged_witness:
  "fst (build_circuits (stand_in (always (LibraryError ''TranspilerError'')) never) 2 1 (0, 0)) =
     Inr ([H 0, H 1, CX 0 1, RZ (- pi) 1, CX 0 1, RX (- pi) 0, RX (- pi) 1, Barrier,
           Measure 0 0, Measure 1 1],
          [H 0, H 1, Barrier, RZ (- pi) 1, Barrier, RX (- pi) 0, RX (- pi) 1, Barrier, CX 0 1,
           Barrier, Measure 0 0, Measure 1 1])
   \<and> fst (run_egs_benchmark (stand_in (always (LibraryError ''TranspilerError'')) never) 2 1 (0, 0))
       = Inl (LibraryError ''TranspilerError'')
   \<and> fst (run_egs_benchmark (stand_in (longer_than 10 (LibraryError ''TranspilerError'')) never) 2 1 (0, 0))
       = Inl (LibraryError ''TranspilerError'')
   \<and> fst (run_egs_benchmark (stand_in never (always (LibraryError ''QiskitError''))) 2 1 (0, 0))
       = Inl (LibraryError ''QiskitError'')
   \<and> fst (run_egs_benchmark (stand_in never (longer_than 10 (LibraryError ''QiskitError''))) 2 1 (0, 0))
       = Inl (LibraryError ''QiskitError'')"
proof -
  let ?s = "[H 0, H 1, CX 0 1, RZ (- pi) 1, CX 0 1, RX (- pi) 0, RX (- pi) 1, Barrier,
             Measure 0 0, Measure 1 1]"
  let ?e = "[H 0, H 1, Barrier, RZ (- pi) 1, Barrier, RX (- pi) 0, RX (- pi) 1, Barrier, CX 0 1,
             Barrier, Measure 0 0, Measure 1 1]"
  let ?te = "LibraryError ''TranspilerError''"
  let ?qe = "LibraryError ''QiskitError''"
  note b = stand_in_built [of _ _ "(0, 0)"]
  have 1: "fst (run_egs_benchmark (stand_in (always ?te) never) 2 1 (0, 0)) = Inl ?te"
    using failures_propagate_unchanged [OF b, of "always ?te" never ?te]
    by (simp add: stand_in_def always_def)
  have 2: "fst (run_egs_benchmark (stand_in (longer_than 10 ?te) never) 2 1 (0, 0)) = Inl ?te"
    using failures_propagate_unchanged [OF b, of "longer_than 10 ?te" never ?te ?s]
    by (simp add: stand_in_def longer_than_def)
  have 3: "fst (run_egs_benchmark (stand_in never (always ?qe)) 2 1 (0, 0)) = Inl ?qe"
    using failures_propagate_unchanged [OF b, of never "always ?qe" ?qe ?s ?e]
    by (simp add: stand_in_def never_def always_def)
  have 4: "fst (run_egs_benchmark (stand_in never (longer_than 10 ?qe)) 2 1 (0, 0)) = Inl ?qe"
    using failures_propagate_unchanged [OF b, of never "longer_than 10 ?qe" ?qe ?s ?e
        "[(''0'', SHOTS)]"]
    by (simp add: stand_in_def never_def longer_than_def)
  from b [of "always ?te" never] 1 2 3 4 show ?thesis by blast
qed

text \<open>
  Claim C5 as stated fails: the benchmark does not turn a failure into
  \<open>CompilationError\<close> or \<open>ExecutionError\<close>. A compiler and a simulator that fail with the
  same exception give the caller the same outcome, whatever the phase.
\<close>

theorem failure_not_wrapped:
  "fst (run_egs_benchmark (stand_in (always (LibraryError ''QiskitError'')) never) 2 1 (0, 0))
     = Inl (LibraryError ''QiskitError'')
   \<and> fst (run_egs_benchmark (stand_in (always (LibraryError ''QiskitError'')) never) 2 1 (0, 0))
     \<noteq> Inl CompilationError
   \<and> fst (run_egs_benchmark (stand_in never (always (LibraryError ''QiskitError''))) 2 1 (0, 0))
     \<noteq> Inl ExecutionError
   \<and> fst (run_egs_benchmark (stand_in (always (LibraryError ''QiskitError'')) never) 2 1 (0, 0))
     = fst (run_egs_benchmark (stand_in never (always (LibraryError ''QiskitError''))) 2 1 (0, 0))"
  unfolding stand_in_run
  by (simp add: compile_and_measure_def stand_in_def always_def never_def)

text \<open>
  Claim C6, as the code has it. For every \<open>n_qubits\<close> and \<open>n_layers\<close>, the outcome of the
  sampling and of the construction of the two circuits does not depend on the state of
  the global generator before the call, since the generator is seeded with 42 first.
  When the count \<open>n_layers * (n_qubits + (n_qubits - 1))\<close> is not negative and \<open>uniform\<close>
  behaves as NumPy documents, the sample is a vector of that length with entries in
  \<open>[-pi, pi)\<close>, and both circuits are built from this one vector.
\<close>

theorem params_deterministic:
  "draw_params env n_qubits n_layers g = draw_params env n_qubits n_layers g'
   \<and> build_circuits env n_qubits n_layers g = build_circuits env n_qubits n_layers g'
   \<and> (numpy_uniform_contract env \<and> 0 \<le> n_params (int n_qubits) (int n_layers) \<longrightarrow>
        (\<exists>v qc_std qc_egs.
             fst (draw_params env n_qubits n_layers g) = Inr v
           \<and> int (length v) = n_params (int n_qubits) (int n_layers)
           \<and> (\<forall>x \<in> set v. - pi \<le> x \<and> x < pi)
           \<and> fst (build_circuits env n_qubits n_layers g) = Inr (qc_std, qc_egs)
           \<and> build_genomic_ansatz_standard n_qubits n_layers v = Inr qc_std
           \<and> build_genomic_ansatz_egs n_qubits n_layers v = Inr qc_egs))"
proof -
  let ?k = "n_params (int n_qubits) (int n_layers)"
  have same: "draw_params env n_qubits n_layers g = draw_params env n_qubits n_layers g'"
    by (simp add: draw_params_def)
  then have same_circuits:
    "build_circuits env n_qubits n_layers g = build_circuits env n_qubits n_layers g'"
    by (simp add: build_circuits_def)
  have sample: "\<exists>v qc_std qc_egs.
             fst (draw_params env n_qubits n_layers g) = Inr v
           \<and> int (length v) = ?k
           \<and> (\<forall>x \<in> set v. - pi \<le> x \<and> x < pi)
           \<and> fst (build_circuits env n_qubits n_layers g) = Inr (qc_std, qc_egs)
           \<and> build_genomic_ansatz_standard n_qubits n_layers v = Inr qc_std
           \<and> build_genomic_ansatz_egs n_qubits n_layers v = Inr qc_egs"
    if contract: "numpy_uniform_contract env" and count: "0 \<le> ?k"
  proof -
    have "- pi < pi" by simp
    with contract count obtain v where
      v: "fst (np_uniform env (np_seed env 42) (- pi) pi ?k) = Inr v"
      and len: "int (length v) = ?k"
      and range: "\<forall>x \<in> set v. - pi \<le> x \<and> x < pi"
      unfolding numpy_uniform_contract_def by blast
    have drawn: "fst (draw_params env n_qubits n_layers g) = Inr v"
      using v by (simp add: draw_params_def)
    have fits: "n_layers * width n_qubits \<le> length v"
      using len enough_iff [of n_qubits n_layers v] by simp
    obtain qc_std where s: "build_genomic_ansatz_standard n_qubits n_layers v = Inr qc_std"
      using fits by (simp add: standard_closed)
    obtain qc_egs where e: "build_genomic_ansatz_egs n_qubits n_layers v = Inr qc_egs"
      using fits by (simp add: egs_closed)
    obtain g2 where "draw_params env n_qubits n_layers g = (Inr v, g2)"
      using drawn by (cases "draw_params env n_qubits n_layers g") simp
    then have "fst (build_circuits env n_qubits n_layers g) = Inr (qc_std, qc_egs)"
      using s e by (simp add: build_circuits_def)
    with drawn len range s e show ?thesis by blast
  qed
  from same same_circuits sample show ?thesis by blast
qed

theorem params_deterministic_witness:
  "numpy_uniform_contract (stand_in never never)
   \<and> 0 \<le> n_params (int 2) (int 1)
   \<and> draw_params (stand_in never never) 2 1 (0, 0)
       = draw_params (stand_in never never) 2 1 (7, 5)
   \<and> draw_params (stand_in never never) 0 1 (0, 0)
       = draw_params (stand_in never never) 0 1 (7, 5)
   \<and> fst (draw_params (stand_in never never) 2 1 (0, 0)) = Inr [- pi, - pi, - pi]
   \<and> (\<exists>v qc_std qc_egs.
             fst (draw_params (stand_in never never) 2 1 (0, 0)) = Inr v
           \<and> int (length v) = n_params (int 2) (int 1)
           \<and> (\<forall>x \<in> set v. - pi \<le> x \<and> x < pi)
           \<and> fst (build_circuits (stand_in never never) 2 1 (0, 0)) = Inr (qc_std, qc_egs)
           \<and> build_genomic_ansatz_standard 2 1 v = Inr qc_std
           \<and> build_genomic_ansatz_egs 2 1 v = Inr qc_egs)"
proof -
  have c: "numpy_uniform_contract (stand_in never never)"
    by (simp add: numpy_uniform_contract_def stand_in_def)
  have k: "0 \<le> n_params (int 2) (int 1)"
    by (simp add: n_params_def)
  have d: "fst (draw_params (stand_in never never) 2 1 (0, 0)) = Inr [- pi, - pi, - pi]"
    by (simp add: draw_params_def stand_in_def n_params_def numeral_3_eq_3)
  from params_deterministic [of "stand_in never never" 2 1 "(0, 0)" "(7, 5)"]
    params_deterministic [of "stand_in never never" 0 1 "(0, 0)" "(7, 5)"] c k d
  show ?thesis
    by blast
qed

text \<open>
  Claim C6 as stated fails for \<open>n_qubits = 0\<close> and \<open>n_layers = 1\<close>: the count is \<open>-1\<close>, no
  vector has that length, and the call ends with the \<open>ValueError\<close> of the sampling.
\<close>

theorem negative_count_no_vector:
  "n_params (int 0) (int 1) = - 1
   \<and> fst (draw_params (stand_in never never) 0 1 (0, 0)) = Inl ValueError
   \<and> fst (run_egs_benchmark (stand_in never never) 0 1 (0, 0)) = Inl ValueError"
  by (simp add: n_params_def draw_params_def stand_in_def run_egs_benchmark_def
      build_circuits_def)

text \<open>
  Claim C7. \<open>create_thermal_noise\<close> has no input. It registers, for all qubits and
  nowhere for specific qubits, two channels: for each of the eight single-qubit gate
  names the thermal relaxation over 60 ns composed with the depolarizing error 0.001 on
  one qubit, and for \<open>cx\<close> and \<open>cz\<close> the tensor of two thermal relaxations over 300 ns
  composed with the depolarizing error 0.01 on two qubits. In each channel the thermal
  part is applied first.
\<close>

theorem thermal_noise_channels:
  "default_quantum_errors create_thermal_noise =
     map (\<lambda>name. (name,
            Compose (ThermalRelaxation (120 / 10 ^ 6) (80 / 10 ^ 6) (60 / 10 ^ 9))
                    (Depolarizing (1 / 1000) 1)))
         [''h'', ''x'', ''z'', ''ry'', ''rz'', ''rx'', ''s'', ''t'']
     @ map (\<lambda>name. (name,
            Compose (Tensor (ThermalRelaxation (120 / 10 ^ 6) (80 / 10 ^ 6) (300 / 10 ^ 9))
                            (ThermalRelaxation (120 / 10 ^ 6) (80 / 10 ^ 6) (300 / 10 ^ 9)))
                    (Depolarizing (1 / 100) 2)))
         [''cx'', ''cz'']
   \<and> local_quantum_errors create_thermal_noise = []
   \<and> remdups (map snd (default_quantum_errors create_thermal_noise)) =
       [Compose (ThermalRelaxation (120 / 10 ^ 6) (80 / 10 ^ 6) (60 / 10 ^ 9))
                (Depolarizing (1 / 1000) 1),
        Compose (Tensor (ThermalRelaxation (120 / 10 ^ 6) (80 / 10 ^ 6) (300 / 10 ^ 9))
                        (ThermalRelaxation (120 / 10 ^ 6) (80 / 10 ^ 6) (300 / 10 ^ 9)))
                (Depolarizing (1 / 100) 2)]
   \<and> map (\<lambda>(name, e). (num_qubits e, application_order e))
         (default_quantum_errors create_thermal_noise) =
       replicate 8 (1, [ThermalRelaxation (120 / 10 ^ 6) (80 / 10 ^ 6) (60 / 10 ^ 9),
                        Depolarizing (1 / 1000) 1])
       @ replicate 2 (2, [Tensor (ThermalRelaxation (120 / 10 ^ 6) (80 / 10 ^ 6) (300 / 10 ^ 9))
                                 (ThermalRelaxation (120 / 10 ^ 6) (80 / 10 ^ 6) (300 / 10 ^ 9)),
                          Depolarizing (1 / 100) 2])"
  by code_simp

text \<open>
  Claim C10. Whatever the arguments and the state of the global generator before the
  call, and whether the call returns or raises, the state of the global generator after
  \<open>run_egs_benchmark\<close> is the one left by seeding with 42 and drawing the sample: it does
  not depend on the state before the call.
\<close>

theorem reseeds_global_generator:
  "snd (run_egs_benchmark env n_qubits n_layers g)
     = snd (np_uniform env (np_seed env 42) (- pi) pi (n_params (int n_qubits) (int n_layers)))
   \<and> snd (run_egs_benchmark env n_qubits n_layers g)
     = snd (run_egs_benchmark env n_qubits n_layers g')"
  by (simp add: run_egs_benchmark_def build_circuits_def draw_params_def
      split: prod.splits sum.splits)

theorem reseeds_global_generator_witness:
  "snd (run_egs_benchmark (stand_in never never) 2 1 (7, 5)) = (42, 1)
   \<and> snd (run_egs_benchmark (stand_in never never) 0 1 (7, 5)) = (42, 1)"
  using reseeds_global_generator [of "stand_in never never" 2 1 "(7, 5)" "(7, 5)"]
    reseeds_global_generator [of "stand_in never never" 0 1 "(7, 5)" "(7, 5)"]
  by (simp add: stand_in_def)

end
